theory Spec2Isabelle
  imports Main
begin

section \<open>The kernel of \<open>src/lib/kernel.js\<close>: values, errors, collaborators\<close>

text \<open>
  The kernel receives multipart messages on its Shell socket, checks their HMAC
  signature, dispatches them by \<open>header.msg_type\<close> and answers on the Shell and
  IOPub sockets; the HeartBeat socket has a listener of its own.

  Conventions of the embedding.
  \<^item> A \<open>Buffer\<close> is the \<open>string\<close> of its bytes, and a JavaScript string is
    the \<open>string\<close> of its UTF-8 bytes, so that \<open>socket.send\<close> writes a string
    frame as it is. \<open>Buffer.toString()\<close> decodes UTF-8: it returns a frame of
    ASCII bytes as it is; what it returns for a frame with another byte (a
    multi-byte character, or an invalid sequence, which it replaces by U+FFFD) is
    left to the platform, the field \<open>utf8_decode\<close> of the runtime.
  \<^item> \<open>undefined\<close> is \<open>None\<close> for a field holding a string, and \<open>JUndefined\<close>
    for a field holding a decoded value.
  \<^item> A thrown exception is a value of \<open>js_error\<close>.
  \<^item> The libraries the file requires but does not contain (\<open>crypto\<close>,
    \<open>JSON\<close>, \<open>node-uuid\<close>, \<open>./sm.js\<close>, \<open>process\<close>) are the
    fields of a record \<open>runtime\<close> that every function takes as a parameter.
\<close>

datatype jsval =
    JUndefined
  | JNull
  | JBool bool
  | JNum int
  | JStr string
  | JArr "jsval list"
  | JObj "(string \<times> jsval) list"

datatype js_error = TypeError | SyntaxError | CryptoError

type_synonym frame = string

text \<open>
  The callbacks of a task, as the session manager invokes them: each receives the
  session object.
\<close>

datatype callback = BeforeRun jsval | AfterRun jsval | OnSuccess jsval | OnError jsval

text \<open>
  \<^item> \<open>createHmac scheme key\<close> is \<open>crypto.createHmac\<close>: \<open>None\<close> when it throws
    (a digest name the platform does not know), otherwise the function from the bytes
    fed by \<open>update\<close>, concatenated, to the raw digest;
  \<^item> \<open>JSON_parse\<close> is \<open>JSON.parse\<close>, \<open>None\<close> when it throws a SyntaxError;
  \<^item> \<open>JSON_text v\<close> is the text \<open>JSON.stringify(v)\<close> returns for a value other
    than \<open>undefined\<close>;
  \<^item> \<open>ToString\<close> is the conversion of a value to a string (used for property keys);
  \<^item> \<open>utf8_decode\<close> is the decoding of a \<open>Buffer\<close> that has a byte outside ASCII;
  \<^item> \<open>uuid_v4 n\<close> is the result of the \<open>n\<close>-th call of \<open>uuid.v4()\<close>;
  \<^item> \<open>sm_run session code\<close> is the sequence of callbacks that
    \<open>sm.Manager.run\<close> makes for a task;
  \<^item> \<open>nodeVersion\<close> is \<open>process.versions.node\<close>, split and parsed.
\<close>

record runtime =
  createHmac :: "string \<Rightarrow> string \<Rightarrow> (string \<Rightarrow> string) option"
  JSON_parse :: "string \<Rightarrow> jsval option"
  JSON_text :: "jsval \<Rightarrow> string"
  ToString :: "jsval \<Rightarrow> string"
  utf8_decode :: "string \<Rightarrow> string"
  uuid_v4 :: "nat \<Rightarrow> string"
  sm_run :: "jsval \<Rightarrow> jsval \<Rightarrow> callback list"
  nodeVersion :: jsval

definition bind_err :: "js_error + 'a \<Rightarrow> ('a \<Rightarrow> js_error + 'b) \<Rightarrow> js_error + 'b" where
  "bind_err m f = (case m of Inl e \<Rightarrow> Inl e | Inr x \<Rightarrow> f x)"

text \<open>
  Reading a property: a TypeError on \<open>undefined\<close> and \<open>null\<close>, the stored value
  of an object, and \<open>undefined\<close> where there is none. The names the kernel reads
  (\<open>msg_type\<close>, \<open>username\<close>, \<open>session\<close>, \<open>code\<close>, \<open>executionCount\<close>,
  \<open>result\<close>, \<open>mime\<close>, \<open>error\<close>, \<open>ename\<close>, \<open>evalue\<close>, \<open>traceback\<close>)
  are not inherited by any value.
\<close>

fun get_prop :: "jsval \<Rightarrow> string \<Rightarrow> js_error + jsval" where
  "get_prop JUndefined k = Inl TypeError"
| "get_prop JNull k = Inl TypeError"
| "get_prop (JObj kvs) k = Inr (case map_of kvs k of None \<Rightarrow> JUndefined | Some v \<Rightarrow> v)"
| "get_prop (JBool b) k = Inr JUndefined"
| "get_prop (JNum n) k = Inr JUndefined"
| "get_prop (JStr s) k = Inr JUndefined"
| "get_prop (JArr vs) k = Inr JUndefined"

text \<open>\<open>v || d\<close> for an optional string \<open>v\<close>: \<open>undefined\<close> and \<open>""\<close> are falsy.\<close>

definition or_default :: "string option \<Rightarrow> string \<Rightarrow> string" where
  "or_default v d = (case v of None \<Rightarrow> d | Some s \<Rightarrow> if s = [] then d else s)"

text \<open>\<open>JSON.stringify(v)\<close>: \<open>undefined\<close> for \<open>undefined\<close>, a text otherwise.\<close>

definition JSON_stringify :: "runtime \<Rightarrow> jsval \<Rightarrow> string option" where
  "JSON_stringify rt v = (if v = JUndefined then None else Some (JSON_text rt v))"

subsection \<open>The HMAC object\<close>

text \<open>
  \<open>hmac.update(x)\<close> appends \<open>x\<close> to the data of the MAC and throws a TypeError
  when \<open>x\<close> is \<open>undefined\<close>; \<open>hmac.digest("hex")\<close> is the digest in lowercase
  hexadecimal, two digits per byte.
\<close>

fun hmac_update :: "string \<Rightarrow> string option \<Rightarrow> js_error + string" where
  "hmac_update acc None = Inl TypeError"
| "hmac_update acc (Some b) = Inr (acc @ b)"

definition hex_digit :: "nat \<Rightarrow> char" where
  "hex_digit n = ''0123456789abcdef'' ! (n mod 16)"

fun hex :: "string \<Rightarrow> string" where
  "hex [] = []"
| "hex (c # cs) = hex_digit (of_char c div 16) # hex_digit (of_char c) # hex cs"

definition digest_hex :: "(string \<Rightarrow> string) \<Rightarrow> string \<Rightarrow> string" where
  "digest_hex mac acc = hex (mac acc)"

section \<open>Message\<close>

record message =
  idents :: "string option"
  delimiter :: "string option"
  signature :: "string option"
  header :: jsval
  parentHeader :: jsval
  metadata :: "string option"
  content :: jsval
  blob :: "string option"
  scheme :: string
  key :: string
  signatureOK :: "bool option"

text \<open>\<open>requestArguments[i]\<close>: \<open>undefined\<close> past the end.\<close>

definition arg :: "frame list \<Rightarrow> nat \<Rightarrow> frame option" where
  "arg requestArguments i =
     (if i < length requestArguments then Some (requestArguments ! i) else None)"

text \<open>\<open>b.toString()\<close> for a \<open>Buffer\<close>: the UTF-8 decoding of its bytes.\<close>

definition is_ascii :: "string \<Rightarrow> bool" where
  "is_ascii b = list_all (\<lambda>c. (of_char c :: nat) < 128) b"

definition Buffer_toString :: "runtime \<Rightarrow> frame \<Rightarrow> string" where
  "Buffer_toString rt b = (if is_ascii b then b else utf8_decode rt b)"

text \<open>The two local functions of \<open>parse\<close>.\<close>

definition toString :: "runtime \<Rightarrow> frame option \<Rightarrow> string option" where
  "toString rt v = (case v of None \<Rightarrow> None | Some b \<Rightarrow> Some (Buffer_toString rt b))"

definition toJSON :: "runtime \<Rightarrow> frame option \<Rightarrow> js_error + jsval" where
  "toJSON rt v =
     (case v of
        None \<Rightarrow> Inr JUndefined
      | Some b \<Rightarrow>
          (case JSON_parse rt (Buffer_toString rt b) of
             None \<Rightarrow> Inl SyntaxError
           | Some j \<Rightarrow> Inr j))"

text \<open>
  The first statements of \<open>parse\<close>, up to the assignment of \<open>signatureOK\<close>: the
  received signature as a string, and whether it is the digest of frames 3 to 6.
\<close>

definition check_signature :: "runtime \<Rightarrow> message \<Rightarrow> frame list \<Rightarrow> js_error + (string \<times> bool)" where
  "check_signature rt this requestArguments =
     (case createHmac rt (scheme this) (key this) of
        None \<Rightarrow> Inl CryptoError
      | Some mac \<Rightarrow>
          bind_err (hmac_update [] (arg requestArguments 3)) (\<lambda>d3.
          bind_err (hmac_update d3 (arg requestArguments 4)) (\<lambda>d4.
          bind_err (hmac_update d4 (arg requestArguments 5)) (\<lambda>d5.
          bind_err (hmac_update d5 (arg requestArguments 6)) (\<lambda>d6.
            (case arg requestArguments 2 of
               None \<Rightarrow> Inl TypeError
             | Some f2 \<Rightarrow>
                 Inr (Buffer_toString rt f2, Buffer_toString rt f2 = digest_hex mac d6)))))))"

text \<open>
  The statements after \<open>if (!this.signatureOK) return;\<close>. An exception of
  \<open>toJSON\<close> leaves \<open>parse\<close>, and the constructor, without a message.
\<close>

definition decode :: "runtime \<Rightarrow> message \<Rightarrow> frame list \<Rightarrow> js_error + message" where
  "decode rt this requestArguments =
     bind_err (toJSON rt (arg requestArguments 3)) (\<lambda>h.
     bind_err (toJSON rt (arg requestArguments 4)) (\<lambda>p.
     bind_err (toJSON rt (arg requestArguments 6)) (\<lambda>c.
       Inr (this\<lparr>idents := toString rt (arg requestArguments 0),
                 delimiter := toString rt (arg requestArguments 1),
                 header := h,
                 parentHeader := p,
                 metadata := toString rt (arg requestArguments 5),
                 content := c,
                 blob := toString rt (arg requestArguments 7)\<rparr>))))"

definition parse :: "runtime \<Rightarrow> message \<Rightarrow> frame list \<Rightarrow> js_error + message" where
  "parse rt this requestArguments =
     bind_err (check_signature rt this requestArguments) (\<lambda>(sig, ok).
       let this' = this\<lparr>signature := Some sig, signatureOK := Some ok\<rparr>
       in if \<not> ok then Inr this' else decode rt this' requestArguments)"

text \<open>The constructor: every field \<open>undefined\<close>, the defaults, then \<open>parse\<close>.\<close>

definition Message_fields :: "string option \<Rightarrow> string option \<Rightarrow> message" where
  "Message_fields scheme_arg key_arg =
     \<lparr>idents = None, delimiter = None, signature = None, header = JUndefined,
      parentHeader = JUndefined, metadata = None, content = JUndefined, blob = None,
      scheme = or_default scheme_arg ''sha256'', key = or_default key_arg [],
      signatureOK = None\<rparr>"

definition Message :: "runtime \<Rightarrow> frame list option \<Rightarrow> string option \<Rightarrow> string option \<Rightarrow> js_error + message" where
  "Message rt requestArguments scheme_arg key_arg =
     (case requestArguments of
        None \<Rightarrow> Inr (Message_fields scheme_arg key_arg)
      | Some args \<Rightarrow> parse rt (Message_fields scheme_arg key_arg) args)"

section \<open>Sockets and effects\<close>

text \<open>
  What the kernel does to the outside is recorded in a state: the messages written to
  each socket, in order (a part of a multipart message is a string, or \<open>undefined\<close>
  as \<open>None\<close>), the arguments of \<open>console.warn\<close>, and the number of identifiers drawn
  from \<open>uuid.v4()\<close>. The field \<open>invoked\<close> is a ghost: the members of the prototype that
  the dispatcher has called with a message.

  An action returns the exception it threw, if any, with the state it reached, so
  that what was sent before an exception stays sent.
\<close>

datatype socket = HbSocket | IopubSocket | ShellSocket

datatype member =
    Kernel_info_request
  | Execute_request
  | Kernel_constructor
  | Object_prototype string

record kstate =
  sent :: "(socket \<times> string option list) list"
  warnings :: "jsval list"
  invoked :: "member list"
  uuid_calls :: nat
  reconstructed :: bool

type_synonym action = "kstate \<Rightarrow> js_error option \<times> kstate"

definition seq :: "action \<Rightarrow> action \<Rightarrow> action" where
  "seq f g st = (case f st of (Some e, st') \<Rightarrow> (Some e, st') | (None, st') \<Rightarrow> g st')"

definition throw :: "js_error \<Rightarrow> action" where
  "throw e st = (Some e, st)"

definition eval_then :: "js_error + 'a \<Rightarrow> ('a \<Rightarrow> action) \<Rightarrow> action" where
  "eval_then m f st = (case m of Inl e \<Rightarrow> (Some e, st) | Inr x \<Rightarrow> f x st)"

definition send :: "socket \<Rightarrow> string option list \<Rightarrow> action" where
  "send socket parts st = (None, st\<lparr>sent := sent st @ [(socket, parts)]\<rparr>)"

definition console_warn :: "jsval \<Rightarrow> action" where
  "console_warn v st = (None, st\<lparr>warnings := warnings st @ [v]\<rparr>)"

section \<open>Message.prototype.respond\<close>

text \<open>
  The header is built first (\<open>uuid.v4()\<close>, then the two reads of \<open>this.header\<close>),
  the four texts are fed to a new HMAC, and the seven parts are sent.
\<close>

definition respond :: "runtime \<Rightarrow> message \<Rightarrow> socket \<Rightarrow> string \<Rightarrow> jsval \<Rightarrow> action" where
  "respond rt this socket messageType content_arg st =
     (let msg_id = uuid_v4 rt (uuid_calls st);
          st1 = st\<lparr>uuid_calls := Suc (uuid_calls st)\<rparr>
      in
        eval_then (get_prop (header this) ''username'') (\<lambda>username.
        eval_then (get_prop (header this) ''session'') (\<lambda>session.
          let header_text = JSON_stringify rt
                (JObj [(''msg_id'', JStr msg_id), (''username'', username),
                       (''session'', session), (''msg_type'', JStr messageType)]);
              parentHeader_text = JSON_stringify rt (header this);
              metadata_text = JSON_stringify rt (JObj []);
              content_text = JSON_stringify rt content_arg
          in
            (case createHmac rt (scheme this) (key this) of
               None \<Rightarrow> throw CryptoError
             | Some mac \<Rightarrow>
                 eval_then (hmac_update [] header_text) (\<lambda>d1.
                 eval_then (hmac_update d1 parentHeader_text) (\<lambda>d2.
                 eval_then (hmac_update d2 metadata_text) (\<lambda>d3.
                 eval_then (hmac_update d3 content_text) (\<lambda>d4.
                   send socket
                     [idents this, delimiter this, Some (digest_hex mac d4),
                      header_text, parentHeader_text, metadata_text, content_text]))))))) st1)"

section \<open>Kernel\<close>

record config =
  ip :: string
  shell_port :: string
  iopub_port :: string
  hb_port :: string
  signature_scheme :: string
  config_key :: string

definition protocolVersion :: jsval where
  "protocolVersion = JArr [JNum 4, JNum 1]"

definition kernel_info_request :: "runtime \<Rightarrow> message \<Rightarrow> action" where
  "kernel_info_request rt request =
     respond rt request ShellSocket ''kernel_info_reply''
       (JObj [(''language'', JStr ''javascript''),
              (''language_version'', nodeVersion rt),
              (''protocol_version'', protocolVersion)])"

subsection \<open>The handler of execute requests\<close>

definition beforeRun :: "runtime \<Rightarrow> message \<Rightarrow> jsval \<Rightarrow> action" where
  "beforeRun rt request session =
     eval_then (get_prop session ''executionCount'') (\<lambda>count.
     eval_then (get_prop (content request) ''code'') (\<lambda>code.
       respond rt request IopubSocket ''pyin''
         (JObj [(''execution_count'', count), (''code'', code)])))"

definition afterRun :: "runtime \<Rightarrow> message \<Rightarrow> jsval \<Rightarrow> action" where
  "afterRun rt request session st = (None, st)"

definition onSuccess :: "runtime \<Rightarrow> message \<Rightarrow> jsval \<Rightarrow> action" where
  "onSuccess rt request session =
     seq
       (eval_then (get_prop session ''executionCount'') (\<lambda>count.
          respond rt request ShellSocket ''execute_reply''
            (JObj [(''status'', JStr ''ok''), (''execution_count'', count),
                   (''payload'', JArr []), (''user_variables'', JObj []),
                   (''user_expressions'', JObj [])])))
       (eval_then (get_prop session ''executionCount'') (\<lambda>count.
        eval_then (get_prop session ''result'') (\<lambda>result.
        eval_then (get_prop result ''mime'') (\<lambda>mime.
          respond rt request IopubSocket ''pyout''
            (JObj [(''execution_count'', count), (''data'', mime),
                   (''metadata'', JObj [])])))))"

text \<open>The three reads of \<open>session.result.error\<close> in one object literal.\<close>

definition error_fields :: "jsval \<Rightarrow> js_error + (jsval \<times> jsval \<times> jsval)" where
  "error_fields session =
     bind_err (get_prop session ''result'') (\<lambda>r1.
     bind_err (get_prop r1 ''error'') (\<lambda>e1.
     bind_err (get_prop e1 ''ename'') (\<lambda>ename.
     bind_err (get_prop session ''result'') (\<lambda>r2.
     bind_err (get_prop r2 ''error'') (\<lambda>e2.
     bind_err (get_prop e2 ''evalue'') (\<lambda>evalue.
     bind_err (get_prop session ''result'') (\<lambda>r3.
     bind_err (get_prop r3 ''error'') (\<lambda>e3.
     bind_err (get_prop e3 ''traceback'') (\<lambda>traceback.
       Inr (ename, evalue, traceback))))))))))"

definition onError :: "runtime \<Rightarrow> message \<Rightarrow> jsval \<Rightarrow> action" where
  "onError rt request session =
     seq
       (eval_then (get_prop session ''executionCount'') (\<lambda>count.
        eval_then (error_fields session) (\<lambda>(ename, evalue, traceback).
          respond rt request ShellSocket ''execute_reply''
            (JObj [(''status'', JStr ''error''), (''execution_count'', count),
                   (''ename'', ename), (''evalue'', evalue),
                   (''traceback'', traceback)]))))
       (eval_then (get_prop session ''executionCount'') (\<lambda>count.
        eval_then (error_fields session) (\<lambda>(ename, evalue, traceback).
          respond rt request IopubSocket ''pyerr''
            (JObj [(''execution_count'', count), (''ename'', ename),
                   (''evalue'', evalue), (''traceback'', traceback)]))))"

fun run_callback :: "runtime \<Rightarrow> message \<Rightarrow> callback \<Rightarrow> action" where
  "run_callback rt request (BeforeRun session) = beforeRun rt request session"
| "run_callback rt request (AfterRun session) = afterRun rt request session"
| "run_callback rt request (OnSuccess session) = onSuccess rt request session"
| "run_callback rt request (OnError session) = onError rt request session"

fun run_callbacks :: "runtime \<Rightarrow> message \<Rightarrow> callback list \<Rightarrow> action" where
  "run_callbacks rt request [] = (\<lambda>st. (None, st))"
| "run_callbacks rt request (cb # cbs) =
     seq (run_callback rt request cb) (run_callbacks rt request cbs)"

text \<open>
  The task is built (\<open>request.content.code\<close> is read), then handed to the session
  manager with \<open>request.header.session\<close>; the callbacks the manager makes run in its
  order.
\<close>

definition execute_request :: "runtime \<Rightarrow> message \<Rightarrow> action" where
  "execute_request rt request =
     eval_then (get_prop (content request) ''code'') (\<lambda>code.
     eval_then (get_prop (header request) ''session'') (\<lambda>session.
       run_callbacks rt request (sm_run rt session code)))"

subsection \<open>The listener of the Shell socket\<close>

text \<open>
  \<open>msg_type in prototype\<close> holds for the own properties of \<open>Kernel.prototype\<close>
  (the two handlers and \<open>constructor\<close>) and for the properties it inherits from
  \<open>Object.prototype\<close>: the operator follows the prototype chain.
\<close>

definition Object_prototype_names :: "string list" where
  "Object_prototype_names =
     [''constructor'', ''toString'', ''toLocaleString'', ''valueOf'', ''hasOwnProperty'',
      ''isPrototypeOf'', ''propertyIsEnumerable'', ''__defineGetter__'',
      ''__defineSetter__'', ''__lookupGetter__'', ''__lookupSetter__'', ''__proto__'']"

definition prototype_member :: "string \<Rightarrow> member option" where
  "prototype_member name =
     (if name = ''kernel_info_request'' then Some Kernel_info_request
      else if name = ''execute_request'' then Some Execute_request
      else if name = ''constructor'' then Some Kernel_constructor
      else if name \<in> set Object_prototype_names then Some (Object_prototype name)
      else None)"

text \<open>The key that \<open>in\<close> and \<open>prototype[msg_type]\<close> look up for a value.\<close>

definition to_property_key :: "runtime \<Rightarrow> jsval \<Rightarrow> string" where
  "to_property_key rt v = (case v of JStr s \<Rightarrow> s | _ \<Rightarrow> ToString rt v)"

text \<open>
  \<open>prototype[msg_type].call(this, msg)\<close>. The two handlers are the functions above.
  Of the inherited members, \<open>__proto__\<close> is not a function and
  \<open>__defineGetter__\<close> and \<open>__defineSetter__\<close> reject a second argument that is
  not a function: a TypeError; the others return a value that is dropped.
  \<open>constructor\<close> is \<open>Kernel\<close> itself, run again on the kernel with the message as
  its configuration: the state only records that it happened.
\<close>

definition call_member :: "runtime \<Rightarrow> member \<Rightarrow> message \<Rightarrow> action" where
  "call_member rt m msg =
     (case m of
        Kernel_info_request \<Rightarrow> kernel_info_request rt msg
      | Execute_request \<Rightarrow> execute_request rt msg
      | Kernel_constructor \<Rightarrow> (\<lambda>st. (None, st\<lparr>reconstructed := True\<rparr>))
      | Object_prototype name \<Rightarrow>
          (if name \<in> {''__proto__'', ''__defineGetter__'', ''__defineSetter__''}
           then throw TypeError
           else (\<lambda>st. (None, st))))"

definition note_invoked :: "member \<Rightarrow> action" where
  "note_invoked m st = (None, st\<lparr>invoked := invoked st @ [m]\<rparr>)"

definition on_message :: "runtime \<Rightarrow> config \<Rightarrow> frame list \<Rightarrow> action" where
  "on_message rt cfg arguments =
     eval_then
       (Message rt (Some arguments)
          (Some (drop (length ''hmac-'') (signature_scheme cfg))) (Some (config_key cfg)))
       (\<lambda>msg.
          if signatureOK msg \<noteq> Some True then (\<lambda>st. (None, st))
          else
            eval_then (get_prop (header msg) ''msg_type'') (\<lambda>msg_type.
              (case prototype_member (to_property_key rt msg_type) of
                 Some m \<Rightarrow> seq (note_invoked m) (call_member rt m msg)
               | None \<Rightarrow> console_warn msg_type)))"

subsection \<open>The listener of the HeartBeat socket\<close>

text \<open>
  A listener is called with \<open>this\<close> set to the socket that emits the event, unless
  it was bound: \<open>_onMessage\<close> is registered as \<open>_onMessage.bind(this)\<close>, the
  listener of the HeartBeat socket is registered as it is. A socket has no property
  \<open>hbSocket\<close>; the kernel has.
\<close>

datatype receiver = The_kernel | The_socket socket

definition listener_this :: "bool \<Rightarrow> socket \<Rightarrow> receiver" where
  "listener_this bound emitter = (if bound then The_kernel else The_socket emitter)"

definition this_hbSocket :: "receiver \<Rightarrow> socket option" where
  "this_hbSocket this = (case this of The_kernel \<Rightarrow> Some HbSocket | The_socket s \<Rightarrow> None)"

definition hb_listener :: "receiver \<Rightarrow> frame \<Rightarrow> action" where
  "hb_listener this message =
     (case this_hbSocket this of
        None \<Rightarrow> throw TypeError
      | Some s \<Rightarrow> send s [Some message])"

text \<open>The arrival of a message on either socket, as the constructor wires it.\<close>

datatype event = Shell_message "frame list" | Hb_message frame

definition emit_message :: "runtime \<Rightarrow> config \<Rightarrow> event \<Rightarrow> action" where
  "emit_message rt cfg ev =
     (case ev of
        Shell_message frames \<Rightarrow> on_message rt cfg frames
      | Hb_message message \<Rightarrow> hb_listener (listener_this False HbSocket) message)"

definition initial_state :: kstate where
  "initial_state = \<lparr>sent = [], warnings = [], invoked = [], uuid_calls = 0, reconstructed = False\<rparr>"

section \<open>The wire layout of the specification\<close>

text \<open>
  The specification lays a message out as
  \<open>[...identities, delimiter, signature, header, parentHeader, metadata, content, blob?]\<close>,
  the delimiter being the frame equal to a fixed sentinel. \<open>spec_layout\<close> follows
  these words: the frames before the first sentinel are the identities, the six
  or seven frames from it on are the delimiter and the fields. It is what \<open>parse\<close>,
  which reads fixed positions, is compared with.
\<close>

record layout =
  l_identities :: "frame list"
  l_signature :: frame
  l_header :: frame
  l_parentHeader :: frame
  l_metadata :: frame
  l_content :: frame
  l_blob :: "frame option"

definition spec_layout :: "frame \<Rightarrow> frame list \<Rightarrow> layout option" where
  "spec_layout sentinel frames =
     (case dropWhile (\<lambda>f. f \<noteq> sentinel) frames of
        [d, sig, h, p, md, c] \<Rightarrow>
          Some \<lparr>l_identities = takeWhile (\<lambda>f. f \<noteq> sentinel) frames, l_signature = sig,
                l_header = h, l_parentHeader = p, l_metadata = md, l_content = c,
                l_blob = None\<rparr>
      | [d, sig, h, p, md, c, b] \<Rightarrow>
          Some \<lparr>l_identities = takeWhile (\<lambda>f. f \<noteq> sentinel) frames, l_signature = sig,
                l_header = h, l_parentHeader = p, l_metadata = md, l_content = c,
                l_blob = Some b\<rparr>
      | _ \<Rightarrow> None)"

text \<open>The tag of a laid-out message: the digest of its four signed frames, in order.\<close>

definition layout_tag :: "(string \<Rightarrow> string) \<Rightarrow> layout \<Rightarrow> string" where
  "layout_tag mac l =
     digest_hex mac (l_header l @ l_parentHeader l @ l_metadata l @ l_content l)"

section \<open>A test double of the collaborators\<close>

text \<open>
  Concrete collaborators, for running the kernel on concrete messages: a MAC that
  knows the scheme \<open>sha256\<close> only and whose digest is the key followed by the data,
  a JSON codec over a table of texts, identifiers \<open>u\<close>, \<open>uu\<close>, ..., and a session
  manager that runs every task successfully with execution count 1 and result
  \<open>2\<close>. The digests of the real \<open>crypto\<close> differ; no statement below depends on
  the double but where it is named.
\<close>

definition hex_alphabet :: "char set" where
  "hex_alphabet = set ''0123456789abcdef''"

definition stub_createHmac :: "string \<Rightarrow> string \<Rightarrow> (string \<Rightarrow> string) option" where
  "stub_createHmac scheme_name k =
     (if scheme_name = ''sha256'' then Some (\<lambda>data. k @ data) else None)"

definition stub_header :: "string \<Rightarrow> jsval" where
  "stub_header msg_type =
     JObj [(''msg_id'', JStr ''request-1''), (''username'', JStr ''user''),
           (''session'', JStr ''session-1''), (''msg_type'', JStr msg_type)]"

definition stub_header_text :: "string \<Rightarrow> string" where
  \<open>stub_header_text msg_type =
     ''{"msg_id":"request-1","username":"user","session":"session-1","msg_type":"''
       @ msg_type @ ''"}''\<close>

definition stub_content :: jsval where
  "stub_content = JObj [(''code'', JStr ''1+1'')]"

definition stub_content_text :: string where
  \<open>stub_content_text = ''{"code":"1+1"}''\<close>

definition stub_json_table :: "(string \<times> jsval) list" where
  "stub_json_table =
     [(''{}'', JObj []),
      (''null'', JNull),
      (stub_content_text, stub_content),
      (stub_header_text ''execute_request'', stub_header ''execute_request''),
      (stub_header_text ''toString'', stub_header ''toString''),
      (stub_header_text ''__proto__'', stub_header ''__proto__'')]"

definition stub_JSON_text :: "jsval \<Rightarrow> string" where
  "stub_JSON_text v =
     (case find (\<lambda>(t, w). w = v) stub_json_table of
        Some (t, w) \<Rightarrow> t
      | None \<Rightarrow> ''null'')"

definition stub_success_session :: jsval where
  "stub_success_session =
     JObj [(''executionCount'', JNum 1),
           (''result'', JObj [(''mime'', JObj [(''text/plain'', JStr ''2'')])])]"

definition stub_error_session :: jsval where
  "stub_error_session =
     JObj [(''executionCount'', JNum 1),
           (''result'', JObj [(''error'',
              JObj [(''ename'', JStr ''Error''), (''evalue'', JStr ''boom''),
                    (''traceback'', JArr [JStr ''boom''])])])]"

text \<open>The decoder of the double replaces every byte outside ASCII by U+FFFD.\<close>

definition stub_utf8_decode :: "string \<Rightarrow> string" where
  "stub_utf8_decode b =
     concat (map (\<lambda>c. if (of_char c :: nat) < 128 then [c]
                        else [CHR 0xEF, CHR 0xBF, CHR 0xBD]) b)"

definition stub_runtime :: runtime where
  "stub_runtime =
     \<lparr>createHmac = stub_createHmac,
      JSON_parse = map_of stub_json_table,
      JSON_text = stub_JSON_text,
      ToString = (\<lambda>v. ''[object Object]''),
      utf8_decode = stub_utf8_decode,
      uuid_v4 = (\<lambda>n. replicate (Suc n) (CHR ''u'')),
      sm_run = (\<lambda>session code.
        [BeforeRun stub_success_session, AfterRun stub_success_session,
         OnSuccess stub_success_session]),
      nodeVersion = JArr [JNum 0, JNum 10, JNum 0]\<rparr>"

definition stub_config :: config where
  "stub_config =
     \<lparr>ip = ''127.0.0.1'', shell_port = ''5001'', iopub_port = ''5002'', hb_port = ''5003'',
      signature_scheme = ''hmac-sha256'', config_key = ''secret''\<rparr>"

text \<open>
  A request as a client holding \<open>secret\<close> signs it for the double, and the message
  the constructor makes of it.
\<close>

definition stub_request_frames :: "string \<Rightarrow> frame list" where
  "stub_request_frames msg_type =
     [''client'', ''<IDS|MSG>'',
      hex (''secret'' @ stub_header_text msg_type @ ''{}'' @ ''{}'' @ stub_content_text),
      stub_header_text msg_type, ''{}'', ''{}'', stub_content_text]"

definition stub_request :: "string \<Rightarrow> message" where
  "stub_request msg_type =
     \<lparr>idents = Some ''client'', delimiter = Some ''<IDS|MSG>'',
      signature = Some (hex (''secret'' @ stub_header_text msg_type @ ''{}'' @ ''{}''
                             @ stub_content_text)),
      header = stub_header msg_type, parentHeader = JObj [], metadata = Some ''{}'',
      content = stub_content, blob = None, scheme = ''sha256'', key = ''secret'',
      signatureOK = Some True\<rparr>"

text \<open>The callbacks that write to a socket: all but \<open>afterRun\<close>.\<close>

fun emits :: "callback \<Rightarrow> bool" where
  "emits (AfterRun session) = False"
| "emits cb = True"

definition stub_forged_frames :: "frame list" where
  "stub_forged_frames = [''client'', ''<IDS|MSG>'', ''forged'', ''{'', ''['', ''x'', ''y'']"

text \<open>A forged message whose signature frame is not UTF-8: the bytes \<open>ff fe\<close>.\<close>

definition stub_binary_frames :: "frame list" where
  "stub_binary_frames =
     [''client'', ''<IDS|MSG>'', [CHR 0xFF, CHR 0xFE], ''{'', ''['', ''x'', ''y'']"

definition stub_unsigned_frames :: "frame list" where
  "stub_unsigned_frames = [''client'', ''<IDS|MSG>'', ''00'', ''{}'', ''{}'', ''{}'', ''{}'']"

definition stub_signature :: string where
  "stub_signature = hex (''secret'' @ stub_header_text ''execute_request'' @ ''{}'' @ ''{}''
                           @ stub_content_text)"

text \<open>
  The same signed request behind two identities, and behind none (with a blob, to have
  seven frames), as the layout of the specification allows; and the layout of the
  request with one identity.
\<close>

definition stub_two_identity_frames :: "frame list" where
  "stub_two_identity_frames =
     [''client-a'', ''client-b'', ''<IDS|MSG>'', stub_signature,
      stub_header_text ''execute_request'', ''{}'', ''{}'', stub_content_text]"

definition stub_no_identity_frames :: "frame list" where
  "stub_no_identity_frames =
     [''<IDS|MSG>'', stub_signature,
      stub_header_text ''execute_request'', ''{}'', ''{}'', stub_content_text, ''blob'']"

text \<open>The request behind one identity that is not UTF-8: the bytes \<open>00 80 00 41 a7\<close>.\<close>

definition stub_router_frames :: "frame list" where
  "stub_router_frames =
     [[CHR 0x00, CHR 0x80, CHR 0x00, CHR 0x41, CHR 0xA7], ''<IDS|MSG>'', stub_signature,
      stub_header_text ''execute_request'', ''{}'', ''{}'', stub_content_text]"

definition stub_layout :: layout where
  "stub_layout =
     \<lparr>l_identities = [''client''], l_signature = stub_signature,
      l_header = stub_header_text ''execute_request'', l_parentHeader = ''{}'',
      l_metadata = ''{}'', l_content = stub_content_text, l_blob = None\<rparr>"

section \<open>What a response looks like on the wire\<close>

text \<open>
  The header object that \<open>respond\<close> builds from the \<open>n\<close>-th identifier, and the
  seven parts it sends for a header object and a content object: the array of
  \<open>socket.send\<close>, with the signature over the four texts.
\<close>

definition response_header :: "runtime \<Rightarrow> nat \<Rightarrow> jsval \<Rightarrow> jsval \<Rightarrow> string \<Rightarrow> jsval" where
  "response_header rt n username session messageType =
     JObj [(''msg_id'', JStr (uuid_v4 rt n)), (''username'', username),
           (''session'', session), (''msg_type'', JStr messageType)]"

definition wire :: "runtime \<Rightarrow> (string \<Rightarrow> string) \<Rightarrow> message \<Rightarrow> jsval \<Rightarrow> jsval \<Rightarrow> string option list" where
  "wire rt mac this header_obj content_obj =
     [idents this, delimiter this,
      Some (digest_hex mac (JSON_text rt header_obj @ JSON_text rt (header this)
                              @ JSON_text rt (JObj []) @ JSON_text rt content_obj)),
      Some (JSON_text rt header_obj), Some (JSON_text rt (header this)),
      Some (JSON_text rt (JObj [])), Some (JSON_text rt content_obj)]"

section \<open>Facts about the signature check\<close>

lemma hex_digit_in: "hex_digit n \<in> hex_alphabet"
  unfolding hex_digit_def hex_alphabet_def by (rule nth_mem) simp

lemma set_hex: "set (hex bs) \<subseteq> hex_alphabet"
  by (induction bs) (simp_all add: hex_digit_in)

lemma not_hex_neq: "c \<in> set s \<Longrightarrow> c \<notin> hex_alphabet \<Longrightarrow> s \<noteq> digest_hex mac d"
  using set_hex [of "mac d"] by (auto simp: digest_hex_def)

lemma hex_alphabet_ascii: "c \<in> hex_alphabet \<Longrightarrow> (of_char c :: nat) < 128"
  by (auto simp: hex_alphabet_def)

lemma is_ascii_hex: "is_ascii (hex bs)"
  using set_hex [of bs] by (auto simp: is_ascii_def list_all_iff hex_alphabet_ascii)

lemma toString_ascii: "is_ascii b \<Longrightarrow> Buffer_toString rt b = b"
  by (simp add: Buffer_toString_def)

lemma toString_digest: "Buffer_toString rt (digest_hex mac d) = digest_hex mac d"
  by (simp add: toString_ascii digest_hex_def is_ascii_hex)

lemma arg_lt: "i < length fs \<Longrightarrow> arg fs i = Some (fs ! i)"
  by (simp add: arg_def)

lemma check_signature_frames:
  assumes "createHmac rt (scheme this) (key this) = Some mac" and "7 \<le> length fs"
  shows "check_signature rt this fs =
           Inr (Buffer_toString rt (fs ! 2),
                Buffer_toString rt (fs ! 2)
                  = digest_hex mac (fs ! 3 @ fs ! 4 @ fs ! 5 @ fs ! 6))"
  using assms
  by (simp add: check_signature_def bind_err_def arg_lt)

lemma check_signature_short:
  assumes "length fs < 7"
  shows "check_signature rt this fs = Inl TypeError \<or> check_signature rt this fs = Inl CryptoError"
  using assms
  by (auto simp: check_signature_def bind_err_def arg_def split: option.splits)

lemma check_signature_Inr:
  assumes "check_signature rt this fs = Inr (sig, ok)"
  shows "\<exists>mac. createHmac rt (scheme this) (key this) = Some mac \<and> 7 \<le> length fs \<and>
           sig = Buffer_toString rt (fs ! 2) \<and>
           ok = (Buffer_toString rt (fs ! 2)
                   = digest_hex mac (fs ! 3 @ fs ! 4 @ fs ! 5 @ fs ! 6))"
proof (cases "createHmac rt (scheme this) (key this)")
  case None
  with assms show ?thesis by (simp add: check_signature_def)
next
  case (Some mac)
  have len: "7 \<le> length fs"
  proof (rule ccontr)
    assume "\<not> 7 \<le> length fs"
    then have "length fs < 7" by simp
    from check_signature_short [OF this, of rt this] assms show False by auto
  qed
  from check_signature_frames [OF Some len] assms Some len show ?thesis by auto
qed

lemma Buffer_toString_JSON_parse:
  "Buffer_toString (rt\<lparr>JSON_parse := p\<rparr>) = Buffer_toString rt"
  by (simp add: fun_eq_iff Buffer_toString_def)

lemma check_signature_JSON_parse:
  "check_signature (rt\<lparr>JSON_parse := p\<rparr>) this fs = check_signature rt this fs"
  by (simp add: check_signature_def Buffer_toString_JSON_parse cong: option.case_cong)

lemma parse_unauthenticated:
  assumes "check_signature rt this fs = Inr (sig, False)"
  shows "parse rt this fs = Inr (this\<lparr>signature := Some sig, signatureOK := Some False\<rparr>)"
  using assms by (simp add: parse_def bind_err_def)

lemma decode_fields:
  assumes "decode rt this fs = Inr m"
  shows "signature m = signature this \<and> signatureOK m = signatureOK this
     \<and> scheme m = scheme this \<and> key m = key this"
  using assms
  by (auto simp: decode_def bind_err_def split: sum.splits)

lemma parse_Inr:
  assumes "parse rt this fs = Inr m"
  shows "\<exists>sig ok. check_signature rt this fs = Inr (sig, ok) \<and> signature m = Some sig
           \<and> signatureOK m = Some ok"
proof (cases "check_signature rt this fs")
  case (Inl e)
  with assms show ?thesis by (simp add: parse_def bind_err_def)
next
  case (Inr r)
  obtain sig ok where r: "r = (sig, ok)" by (cases r)
  show ?thesis
  proof (cases ok)
    case False
    with Inr r have c: "check_signature rt this fs = Inr (sig, False)" by simp
    from parse_unauthenticated [OF c] assms
    have "m = this\<lparr>signature := Some sig, signatureOK := Some False\<rparr>" by simp
    with c show ?thesis
      by (intro exI [of _ sig] exI [of _ False]) simp
  next
    case True
    with assms Inr r
    have "decode rt (this\<lparr>signature := Some sig, signatureOK := Some True\<rparr>) fs = Inr m"
      by (simp add: parse_def bind_err_def)
    from decode_fields [OF this] Inr r True show ?thesis
      by (intro exI [of _ sig] exI [of _ True]) simp
  qed
qed

lemma Message_parse:
  "Message rt (Some fs) sa ka = parse rt (Message_fields sa ka) fs"
  by (simp add: Message_def)

lemma stub_mac_sha256:
  "createHmac stub_runtime ''sha256'' k = Some (\<lambda>data. k @ data)"
  by (simp add: stub_runtime_def stub_createHmac_def)

lemma stub_forged_check:
  "check_signature stub_runtime (Message_fields (Some ''sha256'') (Some ''secret''))
     stub_forged_frames = Inr (''forged'', False)"
proof -
  have neq: "''forged'' \<noteq> digest_hex (\<lambda>data. ''secret'' @ data) (''{'' @ ''['' @ ''x'' @ ''y'')"
    by (rule not_hex_neq [of "CHR ''g''"], simp) (simp add: hex_alphabet_def)
  then show ?thesis
    by (simp add: check_signature_frames [of _ _ "\<lambda>data. ''secret'' @ data"]
        stub_mac_sha256 Message_fields_def or_default_def stub_forged_frames_def
        Buffer_toString_def is_ascii_def)
qed

lemma stub_binary_toString:
  "Buffer_toString stub_runtime [CHR 0xFF, CHR 0xFE]
     = [CHR 0xEF, CHR 0xBF, CHR 0xBD, CHR 0xEF, CHR 0xBF, CHR 0xBD]"
  by (simp add: Buffer_toString_def is_ascii_def stub_runtime_def stub_utf8_decode_def)

lemma stub_binary_Message:
  "Message stub_runtime (Some stub_binary_frames) (Some ''sha256'') (Some ''secret'')
     = Inr ((Message_fields (Some ''sha256'') (Some ''secret''))
              \<lparr>signature := Some [CHR 0xEF, CHR 0xBF, CHR 0xBD, CHR 0xEF, CHR 0xBF, CHR 0xBD],
               signatureOK := Some False\<rparr>)"
proof -
  let ?s = "[CHR 0xEF, CHR 0xBF, CHR 0xBD, CHR 0xEF, CHR 0xBF, CHR 0xBD]"
  have neq: "?s \<noteq> digest_hex (\<lambda>data. ''secret'' @ data) (''{'' @ ''['' @ ''x'' @ ''y'')"
    by (rule not_hex_neq [of "CHR 0xEF"], simp) (simp add: hex_alphabet_def)
  then have "check_signature stub_runtime (Message_fields (Some ''sha256'') (Some ''secret''))
     stub_binary_frames = Inr (?s, False)"
    by (simp add: check_signature_frames [of _ _ "\<lambda>data. ''secret'' @ data"]
        stub_mac_sha256 Message_fields_def or_default_def stub_binary_frames_def
        stub_binary_toString)
  from parse_unauthenticated [OF this] show ?thesis by (simp add: Message_parse)
qed

lemma stub_forged_Message:
  "Message stub_runtime (Some stub_forged_frames) (Some ''sha256'') (Some ''secret'')
     = Inr ((Message_fields (Some ''sha256'') (Some ''secret''))
              \<lparr>signature := Some ''forged'', signatureOK := Some False\<rparr>)"
  unfolding Message_parse by (rule parse_unauthenticated [OF stub_forged_check])

section \<open>Facts about the test double and the dispatcher\<close>

lemma stub_request_check:
  "check_signature stub_runtime (Message_fields (Some ''sha256'') (Some ''secret''))
     (stub_request_frames mt)
   = Inr (hex (''secret'' @ stub_header_text mt @ ''{}'' @ ''{}'' @ stub_content_text), True)"
proof -
  let ?t = "Message_fields (Some ''sha256'') (Some ''secret'')"
  have k: "createHmac stub_runtime (scheme ?t) (key ?t) = Some (\<lambda>data. ''secret'' @ data)"
    by (simp add: stub_mac_sha256 Message_fields_def or_default_def)
  have len: "7 \<le> length (stub_request_frames mt)"
    by (simp add: stub_request_frames_def)
  have f: "stub_request_frames mt ! 2
        = hex (''secret'' @ stub_header_text mt @ ''{}'' @ ''{}'' @ stub_content_text)"
    "stub_request_frames mt ! 3 = stub_header_text mt"
    "stub_request_frames mt ! 4 = ''{}''" "stub_request_frames mt ! 5 = ''{}''"
    "stub_request_frames mt ! 6 = stub_content_text"
    by (simp_all add: stub_request_frames_def)
  show ?thesis
    unfolding check_signature_frames [OF k len] f toString_ascii [OF is_ascii_hex]
    by (simp add: digest_hex_def)
qed

lemma parse_authenticated:
  assumes "check_signature rt this fs = Inr (sig, True)"
  shows "parse rt this fs = decode rt (this\<lparr>signature := Some sig, signatureOK := Some True\<rparr>) fs"
  using assms by (simp add: parse_def bind_err_def)

lemma stub_parse_header:
  "mt \<in> {''execute_request'', ''toString'', ''__proto__''} \<Longrightarrow>
   JSON_parse stub_runtime (stub_header_text mt) = Some (stub_header mt)"
  by (auto simp: stub_runtime_def stub_json_table_def stub_header_text_def stub_content_text_def)

lemma stub_parse_empty: "JSON_parse stub_runtime ''{}'' = Some (JObj [])"
  by (simp add: stub_runtime_def stub_json_table_def)

lemma stub_parse_content: "JSON_parse stub_runtime stub_content_text = Some stub_content"
  by (simp add: stub_runtime_def stub_json_table_def stub_content_text_def)

lemma stub_toString_header:
  "mt \<in> {''execute_request'', ''toString'', ''__proto__''} \<Longrightarrow>
   Buffer_toString rt (stub_header_text mt) = stub_header_text mt"
  by (rule toString_ascii) (auto simp: is_ascii_def stub_header_text_def)

lemma stub_toString_texts:
  "Buffer_toString rt stub_content_text = stub_content_text"
  "Buffer_toString rt ''{}'' = ''{}''"
  "Buffer_toString rt ''null'' = ''null''"
  "Buffer_toString rt ''client'' = ''client''"
  "Buffer_toString rt ''<IDS|MSG>'' = ''<IDS|MSG>''"
  by (simp_all add: Buffer_toString_def is_ascii_def stub_content_text_def)

lemma stub_request_Message:
  assumes "mt \<in> {''execute_request'', ''toString'', ''__proto__''}"
  shows "Message stub_runtime (Some (stub_request_frames mt)) (Some ''sha256'') (Some ''secret'')
     = Inr (stub_request mt)"
  unfolding Message_parse parse_authenticated [OF stub_request_check]
  by (simp add: decode_def toJSON_def toString_def arg_def bind_err_def
      stub_toString_header [OF assms] stub_toString_texts
      stub_parse_header [OF assms] stub_parse_empty stub_parse_content
      stub_request_frames_def stub_request_def Message_fields_def or_default_def)

lemma on_message_authenticated:
  assumes "Message rt (Some fs) (Some (drop (length ''hmac-'') (signature_scheme cfg)))
             (Some (config_key cfg)) = Inr m"
    and "signatureOK m = Some True"
  shows "on_message rt cfg fs =
           eval_then (get_prop (header m) ''msg_type'') (\<lambda>msg_type.
             (case prototype_member (to_property_key rt msg_type) of
                Some mem \<Rightarrow> seq (note_invoked mem) (call_member rt mem m)
              | None \<Rightarrow> console_warn msg_type))"
  using assms by (simp add: on_message_def eval_then_def fun_eq_iff)

lemma stub_config_Message:
  assumes "mt \<in> {''execute_request'', ''toString'', ''__proto__''}"
  shows "Message stub_runtime (Some (stub_request_frames mt))
      (Some (drop (length ''hmac-'') (signature_scheme stub_config)))
      (Some (config_key stub_config))
   = Inr (stub_request mt)"
  using stub_request_Message [OF assms] by (simp add: stub_config_def)

lemma stub_request_OK: "signatureOK (stub_request mt) = Some True"
  by (simp add: stub_request_def)

lemma stub_request_msg_type: "get_prop (header (stub_request mt)) ''msg_type'' = Inr (JStr mt)"
  by (simp add: stub_request_def stub_header_def)

lemma spec_layout_one_identity:
  assumes "spec_layout sentinel frames = Some l" and "l_identities l = [ident]"
  shows "frames = ident # sentinel # l_signature l # l_header l # l_parentHeader l
            # l_metadata l # l_content l # (case l_blob l of None \<Rightarrow> [] | Some b \<Rightarrow> [b])"
proof -
  let ?P = "\<lambda>f. f \<noteq> sentinel"
  define ds where "ds = dropWhile ?P frames"
  define ts where "ts = takeWhile ?P frames"
  have split: "frames = ts @ ds" by (simp add: ts_def ds_def)
  from assms(1) have l: "(case ds of
        [d, sig, h, p, md, c] \<Rightarrow>
          Some \<lparr>l_identities = ts, l_signature = sig,
                l_header = h, l_parentHeader = p, l_metadata = md, l_content = c,
                l_blob = None\<rparr>
      | [d, sig, h, p, md, c, b] \<Rightarrow>
          Some \<lparr>l_identities = ts, l_signature = sig,
                l_header = h, l_parentHeader = p, l_metadata = md, l_content = c,
                l_blob = Some b\<rparr>
      | _ \<Rightarrow> None) = Some l"
    unfolding spec_layout_def ts_def ds_def .
  then have ne: "ds \<noteq> []" by auto
  then have hd: "hd ds = sentinel"
    using hd_dropWhile [of ?P frames] by (simp add: ds_def)
  from l assms(2) have tw: "ts = [ident]"
    by (auto split: list.splits)
  from l hd
  have "ds = sentinel # l_signature l # l_header l # l_parentHeader l
            # l_metadata l # l_content l # (case l_blob l of None \<Rightarrow> [] | Some b \<Rightarrow> [b])"
    by (auto split: list.splits)
  with split tw show ?thesis by simp
qed

lemma stub_layout_tag: "layout_tag (\<lambda>data. ''secret'' @ data) stub_layout = stub_signature"
  by (simp add: layout_tag_def stub_layout_def digest_hex_def stub_signature_def)

text \<open>Called on the kernel, as a bound listener would be, the same function echoes.\<close>

lemma hb_listener_on_kernel:
  "hb_listener The_kernel b st = (None, st\<lparr>sent := sent st @ [(HbSocket, [Some b])]\<rparr>)"
  by (simp add: hb_listener_def this_hbSocket_def send_def)

section \<open>Facts about respond\<close>

lemma get_prop_defined: "get_prop v k = Inr x \<Longrightarrow> v \<noteq> JUndefined"
  by (cases v) auto

lemma respond_ok:
  assumes u: "get_prop (header this) ''username'' = Inr username"
    and s: "get_prop (header this) ''session'' = Inr session"
    and k: "createHmac rt (scheme this) (key this) = Some mac"
    and c: "content_arg \<noteq> JUndefined"
  shows "respond rt this socket messageType content_arg st =
     (None, st\<lparr>uuid_calls := Suc (uuid_calls st),
                sent := sent st @ [(socket, wire rt mac this
                  (response_header rt (uuid_calls st) username session messageType)
                  content_arg)]\<rparr>)"
proof -
  from u have h: "header this \<noteq> JUndefined" by (rule get_prop_defined)
  show ?thesis
    by (simp add: respond_def Let_def eval_then_def u s k c h JSON_stringify_def send_def
        wire_def response_header_def)
qed

lemma respond_None:
  assumes "respond rt this socket messageType content_arg st = (None, st')"
  shows "\<exists>username session mac.
     get_prop (header this) ''username'' = Inr username
     \<and> get_prop (header this) ''session'' = Inr session
     \<and> createHmac rt (scheme this) (key this) = Some mac
     \<and> content_arg \<noteq> JUndefined"
proof -
  obtain username where u: "get_prop (header this) ''username'' = Inr username"
    using assms by (cases "get_prop (header this) ''username''")
      (auto simp: respond_def Let_def eval_then_def)
  obtain session where s: "get_prop (header this) ''session'' = Inr session"
    using assms u by (cases "get_prop (header this) ''session''")
      (auto simp: respond_def Let_def eval_then_def)
  obtain mac where k: "createHmac rt (scheme this) (key this) = Some mac"
    using assms u s by (cases "createHmac rt (scheme this) (key this)")
      (auto simp: respond_def Let_def eval_then_def throw_def)
  from u have h: "header this \<noteq> JUndefined" by (rule get_prop_defined)
  have c: "content_arg \<noteq> JUndefined"
  proof
    assume "content_arg = JUndefined"
    with assms u s k h show False
      by (simp add: respond_def Let_def eval_then_def JSON_stringify_def)
  qed
  from u s k c show ?thesis by blast
qed

lemma stub_json_table_ascii: "(t, w) \<in> set stub_json_table \<Longrightarrow> is_ascii t"
  by (auto simp: stub_json_table_def is_ascii_def stub_header_text_def stub_content_text_def)

lemma stub_json_total:
  "JSON_parse stub_runtime (Buffer_toString stub_runtime (JSON_text stub_runtime v)) \<noteq> None"
proof (cases "find (\<lambda>(t, w). w = v) stub_json_table")
  case None
  then have "JSON_text stub_runtime v = ''null''"
    by (simp add: stub_runtime_def stub_JSON_text_def)
  then show ?thesis
    by (simp add: stub_toString_texts) (simp add: stub_runtime_def stub_json_table_def)
next
  case (Some tw)
  obtain t w where tw: "tw = (t, w)" by (cases tw)
  from Some tw have mem: "(t, w) \<in> set stub_json_table"
    by (auto simp: find_Some_iff in_set_conv_nth)
  then have "t \<in> fst ` set stub_json_table" by force
  then have "map_of stub_json_table t \<noteq> None"
    by (simp add: map_of_eq_None_iff)
  moreover from Some tw have "JSON_text stub_runtime v = t"
    by (simp add: stub_runtime_def stub_JSON_text_def)
  moreover have "Buffer_toString stub_runtime t = t"
    by (rule toString_ascii [OF stub_json_table_ascii [OF mem]])
  ultimately show ?thesis by (simp add: stub_runtime_def)
qed

lemma stub_respond_ok:
  "respond stub_runtime (stub_request ''execute_request'') ShellSocket ''kernel_info_reply''
      (JObj []) initial_state
   = (None, initial_state\<lparr>uuid_calls := Suc 0,
        sent := [(ShellSocket, wire stub_runtime (\<lambda>data. ''secret'' @ data)
           (stub_request ''execute_request'')
           (response_header stub_runtime 0 (JStr ''user'') (JStr ''session-1'') ''kernel_info_reply'')
           (JObj []))]\<rparr>)"
proof -
  have u: "get_prop (header (stub_request ''execute_request'')) ''username'' = Inr (JStr ''user'')"
    and s: "get_prop (header (stub_request ''execute_request'')) ''session'' = Inr (JStr ''session-1'')"
    by (simp_all add: stub_request_def stub_header_def)
  have k: "createHmac stub_runtime (scheme (stub_request ''execute_request''))
      (key (stub_request ''execute_request'')) = Some (\<lambda>data. ''secret'' @ data)"
    by (simp add: stub_request_def stub_mac_sha256)
  from respond_ok [OF u s k, of "JObj []" ShellSocket "''kernel_info_reply''" initial_state]
  show ?thesis by (simp add: initial_state_def)
qed

lemma run_callbacks_emits:
  "run_callbacks rt request cbs = run_callbacks rt request (filter emits cbs)"
proof (induction cbs)
  case Nil
  show ?case by simp
next
  case (Cons cb cbs)
  have skip: "seq (afterRun rt request x) f = f" for x f
    by (simp add: seq_def afterRun_def fun_eq_iff)
  from Cons show ?case
    by (cases cb) (simp_all add: skip)
qed

lemma respond_ok_obj:
  assumes "get_prop (header this) ''username'' = Inr username"
    and "get_prop (header this) ''session'' = Inr session"
    and "createHmac rt (scheme this) (key this) = Some mac"
  shows "respond rt this socket messageType (JObj kvs) st =
     (None, st\<lparr>uuid_calls := Suc (uuid_calls st),
                sent := sent st @ [(socket, wire rt mac this
                  (response_header rt (uuid_calls st) username session messageType)
                  (JObj kvs))]\<rparr>)"
  by (rule respond_ok [OF assms]) simp

lemma stub_request_props:
  "get_prop (header (stub_request mt)) ''username'' = Inr (JStr ''user'')"
  "get_prop (header (stub_request mt)) ''session'' = Inr (JStr ''session-1'')"
  "createHmac stub_runtime (scheme (stub_request mt)) (key (stub_request mt))
     = Some (\<lambda>data. ''secret'' @ data)"
  "get_prop (content (stub_request mt)) ''code'' = Inr (JStr ''1+1'')"
  by (simp_all add: stub_request_def stub_header_def stub_content_def stub_mac_sha256)

section \<open>The claims\<close>

text \<open>
  C10. When the signature check fails, \<open>parse\<close> stops before it decodes anything: the
  message the constructor returns holds the received signature (frame 2 as
  \<open>toString()\<close> gives it) and \<open>signatureOK = false\<close>, and \<open>idents\<close>,
  \<open>delimiter\<close>, \<open>header\<close>, \<open>parentHeader\<close>, \<open>metadata\<close>, \<open>content\<close> and
  \<open>blob\<close> are still \<open>undefined\<close>.
\<close>

theorem unauthenticated_message_fields:
  assumes "Message rt (Some requestArguments) scheme_arg key_arg = Inr m"
    and "signatureOK m \<noteq> Some True"
  shows "signature m = Some (Buffer_toString rt (requestArguments ! 2))
     \<and> 2 < length requestArguments
     \<and> signatureOK m = Some False
     \<and> idents m = None \<and> delimiter m = None \<and> header m = JUndefined
     \<and> parentHeader m = JUndefined \<and> metadata m = None \<and> content m = JUndefined
     \<and> blob m = None"
proof -
  let ?t = "Message_fields scheme_arg key_arg"
  from assms(1) have p: "parse rt ?t requestArguments = Inr m"
    by (simp add: Message_parse)
  from parse_Inr [OF p] obtain sig ok where
    c: "check_signature rt ?t requestArguments = Inr (sig, ok)"
    and "signatureOK m = Some ok" by blast
  with assms(2) have ok: "ok = False" by auto
  from check_signature_Inr [OF c] have len: "7 \<le> length requestArguments"
    and sig: "sig = Buffer_toString rt (requestArguments ! 2)" by auto
  from parse_unauthenticated [OF c [unfolded ok]] p
  have m: "m = ?t\<lparr>signature := Some sig, signatureOK := Some False\<rparr>" by simp
  with len sig show ?thesis by (simp add: Message_fields_def)
qed

text \<open>
  The witness is a forged message whose signature frame is the two bytes \<open>ff fe\<close>,
  not UTF-8: the stored signature is the decoded string, not the frame.
\<close>

theorem unauthenticated_message_fields_witness:
  "Message stub_runtime (Some stub_binary_frames) (Some ''sha256'') (Some ''secret'')
     = Inr ((Message_fields (Some ''sha256'') (Some ''secret''))
              \<lparr>signature := Some [CHR 0xEF, CHR 0xBF, CHR 0xBD, CHR 0xEF, CHR 0xBF, CHR 0xBD],
               signatureOK := Some False\<rparr>)
   \<and> Buffer_toString stub_runtime (stub_binary_frames ! 2)
       = [CHR 0xEF, CHR 0xBF, CHR 0xBD, CHR 0xEF, CHR 0xBF, CHR 0xBD]
   \<and> signature ((Message_fields (Some ''sha256'') (Some ''secret''))
              \<lparr>signature := Some [CHR 0xEF, CHR 0xBF, CHR 0xBD, CHR 0xEF, CHR 0xBF, CHR 0xBD],
               signatureOK := Some False\<rparr>)
       = Some (Buffer_toString stub_runtime (stub_binary_frames ! 2))
   \<and> header ((Message_fields (Some ''sha256'') (Some ''secret''))
              \<lparr>signature := Some [CHR 0xEF, CHR 0xBF, CHR 0xBD, CHR 0xEF, CHR 0xBF, CHR 0xBD],
               signatureOK := Some False\<rparr>) = JUndefined
   \<and> content ((Message_fields (Some ''sha256'') (Some ''secret''))
              \<lparr>signature := Some [CHR 0xEF, CHR 0xBF, CHR 0xBD, CHR 0xEF, CHR 0xBF, CHR 0xBD],
               signatureOK := Some False\<rparr>) = JUndefined
   \<and> idents ((Message_fields (Some ''sha256'') (Some ''secret''))
              \<lparr>signature := Some [CHR 0xEF, CHR 0xBF, CHR 0xBD, CHR 0xEF, CHR 0xBF, CHR 0xBD],
               signatureOK := Some False\<rparr>) = None"
proof -
  have b: "Buffer_toString stub_runtime (stub_binary_frames ! 2)
       = [CHR 0xEF, CHR 0xBF, CHR 0xBD, CHR 0xEF, CHR 0xBF, CHR 0xBD]"
    by (simp add: stub_binary_frames_def stub_binary_toString)
  from unauthenticated_message_fields [OF stub_binary_Message] stub_binary_Message b
  show ?thesis by simp
qed

text \<open>
  C3. \<open>parse\<close> checks the signature before it decodes a frame: when the recomputed
  tag is not the received signature it returns the unauthenticated message whatever
  \<open>JSON.parse\<close> does on the frames (also a \<open>JSON.parse\<close> that throws on every
  text); a SyntaxError can only leave \<open>parse\<close> after the check has succeeded; and
  the check itself never calls \<open>JSON.parse\<close>.
\<close>

theorem parse_checks_signature_first:
  "(check_signature rt this fs = Inr (sig, False) \<longrightarrow>
      (\<forall>p. parse (rt\<lparr>JSON_parse := p\<rparr>) this fs
             = Inr (this\<lparr>signature := Some sig, signatureOK := Some False\<rparr>)))
   \<and> (parse rt this fs = Inl SyntaxError \<longrightarrow>
        (\<exists>sig'. check_signature rt this fs = Inr (sig', True)))
   \<and> check_signature (rt\<lparr>JSON_parse := p'\<rparr>) this fs = check_signature rt this fs"
proof (intro conjI impI allI)
  fix p
  assume c: "check_signature rt this fs = Inr (sig, False)"
  then have "check_signature (rt\<lparr>JSON_parse := p\<rparr>) this fs = Inr (sig, False)"
    by (simp add: check_signature_JSON_parse)
  then show "parse (rt\<lparr>JSON_parse := p\<rparr>) this fs
      = Inr (this\<lparr>signature := Some sig, signatureOK := Some False\<rparr>)"
    by (rule parse_unauthenticated)
next
  assume e: "parse rt this fs = Inl SyntaxError"
  show "\<exists>sig'. check_signature rt this fs = Inr (sig', True)"
  proof (cases "check_signature rt this fs")
    case (Inl e')
    have "e' \<noteq> SyntaxError"
      using Inl
      by (auto simp: check_signature_def bind_err_def arg_def split: option.splits if_splits)
    with e Inl show ?thesis by (simp add: parse_def bind_err_def)
  next
    case (Inr r)
    obtain s ok where r: "r = (s, ok)" by (cases r)
    show ?thesis
    proof (cases ok)
      case True
      with Inr r show ?thesis by simp
    next
      case False
      with Inr r have "check_signature rt this fs = Inr (s, False)" by simp
      from parse_unauthenticated [OF this] e show ?thesis by simp
    qed
  qed
next
  show "check_signature (rt\<lparr>JSON_parse := p'\<rparr>) this fs = check_signature rt this fs"
    by (rule check_signature_JSON_parse)
qed

theorem parse_checks_signature_first_witness:
  "check_signature stub_runtime (Message_fields (Some ''sha256'') (Some ''secret''))
     stub_forged_frames = Inr (''forged'', False)
   \<and> parse (stub_runtime\<lparr>JSON_parse := (\<lambda>t. None)\<rparr>)
        (Message_fields (Some ''sha256'') (Some ''secret'')) stub_forged_frames
      = Inr ((Message_fields (Some ''sha256'') (Some ''secret''))
              \<lparr>signature := Some ''forged'', signatureOK := Some False\<rparr>)"
  using parse_checks_signature_first
    [of stub_runtime "Message_fields (Some ''sha256'') (Some ''secret'')" stub_forged_frames
        "''forged''"]
    stub_forged_check
  by simp

text \<open>
  C1. A message that arrives on the Shell socket and whose recomputed tag is not the
  received signature changes nothing: the listener returns with the state it found,
  so no member of the prototype was called with it, nothing was sent on any socket,
  and no response has its header as parent header.
\<close>

theorem unauthenticated_never_dispatched:
  assumes "Message rt (Some frames) (Some (drop (length ''hmac-'') (signature_scheme cfg)))
             (Some (config_key cfg)) = Inr m"
    and "signatureOK m \<noteq> Some True"
  shows "emit_message rt cfg (Shell_message frames) st = (None, st)"
  using assms by (simp add: emit_message_def on_message_def eval_then_def)

theorem unauthenticated_never_dispatched_witness:
  "Message stub_runtime (Some stub_forged_frames)
      (Some (drop (length ''hmac-'') (signature_scheme stub_config)))
      (Some (config_key stub_config))
     = Inr ((Message_fields (Some ''sha256'') (Some ''secret''))
              \<lparr>signature := Some ''forged'', signatureOK := Some False\<rparr>)
   \<and> emit_message stub_runtime stub_config (Shell_message stub_forged_frames) initial_state
       = (None, initial_state)"
proof -
  have m: "Message stub_runtime (Some stub_forged_frames)
      (Some (drop (length ''hmac-'') (signature_scheme stub_config)))
      (Some (config_key stub_config))
     = Inr ((Message_fields (Some ''sha256'') (Some ''secret''))
              \<lparr>signature := Some ''forged'', signatureOK := Some False\<rparr>)"
    using stub_forged_Message by (simp add: stub_config_def)
  from unauthenticated_never_dispatched [OF m, of initial_state] m show ?thesis by simp
qed

text \<open>
  C2. With the empty key, a well-formed message whose signature frame is not the tag
  is not authenticated: there is no unsigned mode in \<open>parse\<close>.
\<close>

theorem empty_key_counterexample:
  "map_sum id signatureOK
     (Message stub_runtime
        (Some stub_unsigned_frames) (Some ''sha256'') (Some '''')) = Inr (Some False)"
proof -
  let ?fs = "stub_unsigned_frames"
  have "check_signature stub_runtime (Message_fields (Some ''sha256'') (Some '''')) ?fs
      = Inr (''00'', False)"
    by (simp add: check_signature_frames [of _ _ "\<lambda>data. [] @ data"]
        stub_mac_sha256 Message_fields_def or_default_def digest_hex_def hex_digit_def
        stub_unsigned_frames_def Buffer_toString_def is_ascii_def)
  from parse_unauthenticated [OF this] show ?thesis
    by (simp add: Message_parse)
qed

text \<open>
  C2, as the code has it. With the empty key the tag is still computed, under the empty
  key, and compared: the message that the constructor returns is authenticated exactly
  when frame 2, as \<open>toString()\<close> gives it, is the hexadecimal digest of frames 3 to
  6; for a signature frame of ASCII bytes, as every hexadecimal digest is, that is
  exactly when the frame is the digest.
\<close>

theorem empty_key_checks_signature:
  assumes "Message rt (Some frames) scheme_arg (Some '''') = Inr m"
    and "createHmac rt (or_default scheme_arg ''sha256'') '''' = Some mac"
  shows "signatureOK m =
           Some (Buffer_toString rt (frames ! 2)
                   = digest_hex mac (frames ! 3 @ frames ! 4 @ frames ! 5 @ frames ! 6))
         \<and> (is_ascii (frames ! 2) \<longrightarrow>
              signatureOK m =
                Some (frames ! 2
                        = digest_hex mac (frames ! 3 @ frames ! 4 @ frames ! 5 @ frames ! 6)))
         \<and> 7 \<le> length frames"
proof -
  let ?t = "Message_fields scheme_arg (Some '''')"
  from assms(1) have p: "parse rt ?t frames = Inr m" by (simp add: Message_parse)
  from parse_Inr [OF p] obtain sig ok where
    c: "check_signature rt ?t frames = Inr (sig, ok)" and ok: "signatureOK m = Some ok"
    by blast
  have k: "createHmac rt (scheme ?t) (key ?t) = Some mac"
    using assms(2) by (simp add: Message_fields_def or_default_def)
  from check_signature_Inr [OF c] k ok
  have a: "signatureOK m =
           Some (Buffer_toString rt (frames ! 2)
                   = digest_hex mac (frames ! 3 @ frames ! 4 @ frames ! 5 @ frames ! 6))"
    and len: "7 \<le> length frames" by auto
  from a len show ?thesis by (simp add: toString_ascii)
qed

theorem empty_key_checks_signature_witness:
  "Message stub_runtime (Some stub_unsigned_frames) (Some ''sha256'') (Some '''')
     = Inr ((Message_fields (Some ''sha256'') (Some ''''))
              \<lparr>signature := Some ''00'', signatureOK := Some False\<rparr>)
   \<and> createHmac stub_runtime (or_default (Some ''sha256'') ''sha256'') '''' = Some (\<lambda>data. [] @ data)
   \<and> signatureOK ((Message_fields (Some ''sha256'') (Some ''''))
              \<lparr>signature := Some ''00'', signatureOK := Some False\<rparr>)
       = Some (''00'' = digest_hex (\<lambda>data. [] @ data) (''{}'' @ ''{}'' @ ''{}'' @ ''{}''))
   \<and> is_ascii (stub_unsigned_frames ! 2)"
proof -
  let ?fs = "stub_unsigned_frames"
  have "check_signature stub_runtime (Message_fields (Some ''sha256'') (Some '''')) ?fs
      = Inr (''00'', False)"
    by (simp add: check_signature_frames [of _ _ "\<lambda>data. [] @ data"]
        stub_mac_sha256 Message_fields_def or_default_def digest_hex_def hex_digit_def
        stub_unsigned_frames_def Buffer_toString_def is_ascii_def)
  from parse_unauthenticated [OF this]
  have m: "Message stub_runtime (Some ?fs) (Some ''sha256'') (Some '''')
     = Inr ((Message_fields (Some ''sha256'') (Some ''''))
              \<lparr>signature := Some ''00'', signatureOK := Some False\<rparr>)"
    by (simp add: Message_parse)
  have k: "createHmac stub_runtime (or_default (Some ''sha256'') ''sha256'') '''' = Some (\<lambda>data. [] @ data)"
    by (simp add: or_default_def stub_mac_sha256)
  have a: "is_ascii (stub_unsigned_frames ! 2)"
    by (simp add: stub_unsigned_frames_def is_ascii_def)
  from empty_key_checks_signature [OF m k] m k a show ?thesis
    by (simp add: stub_unsigned_frames_def)
qed

text \<open>
  C5 (the code departs from it). The listener of the HeartBeat socket reads
  \<open>this.hbSocket\<close> with \<open>this\<close> the emitting socket, which has no such
  property: for every payload it throws a TypeError and nothing is sent back.
\<close>

theorem heartbeat_listener_throws:
  "emit_message rt cfg (Hb_message b) st = (Some TypeError, st)"
  by (simp add: emit_message_def hb_listener_def listener_this_def this_hbSocket_def throw_def)

text \<open>
  C6 (the code departs from it). An authenticated message whose type is the name of
  a member that \<open>Kernel.prototype\<close> inherits is not answered with a warning: for
  \<open>toString\<close> the inherited function is called with the message and no warning is
  written, for \<open>__proto__\<close> the call throws a TypeError.
\<close>

theorem inherited_member_dispatched:
  "emit_message stub_runtime stub_config (Shell_message (stub_request_frames ''toString''))
      initial_state
     = (None, initial_state\<lparr>invoked := [Object_prototype ''toString'']\<rparr>)
   \<and> emit_message stub_runtime stub_config (Shell_message (stub_request_frames ''__proto__''))
      initial_state
     = (Some TypeError, initial_state\<lparr>invoked := [Object_prototype ''__proto__'']\<rparr>)"
proof -
  have a: "on_message stub_runtime stub_config (stub_request_frames ''toString'') initial_state
     = (None, initial_state\<lparr>invoked := [Object_prototype ''toString'']\<rparr>)"
    unfolding on_message_authenticated [OF stub_config_Message stub_request_OK, of "''toString''", simplified]
    by (simp add: stub_request_msg_type eval_then_def to_property_key_def prototype_member_def
      Object_prototype_names_def seq_def note_invoked_def call_member_def throw_def
      initial_state_def)
  have b: "on_message stub_runtime stub_config (stub_request_frames ''__proto__'') initial_state
     = (Some TypeError, initial_state\<lparr>invoked := [Object_prototype ''__proto__'']\<rparr>)"
    unfolding on_message_authenticated [OF stub_config_Message stub_request_OK, of "''__proto__''", simplified]
    by (simp add: stub_request_msg_type eval_then_def to_property_key_def prototype_member_def
      Object_prototype_names_def seq_def note_invoked_def call_member_def throw_def
      initial_state_def)
  from a b show ?thesis by (simp add: emit_message_def)
qed

text \<open>
  C7. \<open>parse\<close> reads fixed positions and never looks for the delimiter: the request
  of the test double, correctly signed and laid out as the specification allows with
  two identities, or with none, is not authenticated.
\<close>

theorem parse_fixed_positions_counterexample:
  "(case spec_layout ''<IDS|MSG>'' stub_two_identity_frames of
      Some l \<Rightarrow> length (l_identities l) = 2
                \<and> l_signature l = layout_tag (\<lambda>data. ''secret'' @ data) l
    | None \<Rightarrow> False)
   \<and> map_sum id signatureOK
        (Message stub_runtime (Some stub_two_identity_frames) (Some ''sha256'') (Some ''secret''))
       = Inr (Some False)
   \<and> (case spec_layout ''<IDS|MSG>'' stub_no_identity_frames of
      Some l \<Rightarrow> length (l_identities l) = 0
                \<and> l_signature l = layout_tag (\<lambda>data. ''secret'' @ data) l
    | None \<Rightarrow> False)
   \<and> map_sum id signatureOK
        (Message stub_runtime (Some stub_no_identity_frames) (Some ''sha256'') (Some ''secret''))
       = Inr (Some False)"
proof -
  let ?t = "Message_fields (Some ''sha256'') (Some ''secret'')"
  let ?mac = "\<lambda>data. ''secret'' @ data"
  have k: "createHmac stub_runtime (scheme ?t) (key ?t) = Some ?mac"
    by (simp add: stub_mac_sha256 Message_fields_def or_default_def)
  have l2: "spec_layout ''<IDS|MSG>'' stub_two_identity_frames
      = Some (stub_layout\<lparr>l_identities := [''client-a'', ''client-b'']\<rparr>)"
    by (simp add: spec_layout_def stub_two_identity_frames_def stub_layout_def)
  have l0: "spec_layout ''<IDS|MSG>'' stub_no_identity_frames
      = Some (stub_layout\<lparr>l_identities := [], l_blob := Some ''blob''\<rparr>)"
    by (simp add: spec_layout_def stub_no_identity_frames_def stub_layout_def)
  have tag: "layout_tag ?mac (stub_layout\<lparr>l_identities := [''client-a'', ''client-b'']\<rparr>) = stub_signature"
    "layout_tag ?mac (stub_layout\<lparr>l_identities := [], l_blob := Some ''blob''\<rparr>) = stub_signature"
    using stub_layout_tag by (simp_all add: layout_tag_def)
  have n2: "''<IDS|MSG>'' \<noteq> digest_hex ?mac d" for d
    by (rule not_hex_neq [of "CHR ''<''"], simp) (simp add: hex_alphabet_def)
  have n0: "stub_header_text ''execute_request'' \<noteq> digest_hex ?mac d" for d
    by (rule not_hex_neq [of "CHR ''{''"], simp add: stub_header_text_def)
       (simp add: hex_alphabet_def)
  have len2: "7 \<le> length stub_two_identity_frames"
    and f2: "stub_two_identity_frames ! 2 = ''<IDS|MSG>''"
    by (simp_all add: stub_two_identity_frames_def)
  have len0: "7 \<le> length stub_no_identity_frames"
    and f0: "stub_no_identity_frames ! 2 = stub_header_text ''execute_request''"
    by (simp_all add: stub_no_identity_frames_def)
  have c2: "check_signature stub_runtime ?t stub_two_identity_frames = Inr (''<IDS|MSG>'', False)"
    unfolding check_signature_frames [OF k len2] f2 stub_toString_texts
    by (simp only: n2 simp_thms)
  have c0: "check_signature stub_runtime ?t stub_no_identity_frames
      = Inr (stub_header_text ''execute_request'', False)"
    unfolding check_signature_frames [OF k len0] f0
      stub_toString_header [of "''execute_request''", simplified]
    by (simp only: n0 simp_thms)
  show ?thesis
    unfolding Message_parse parse_unauthenticated [OF c2] parse_unauthenticated [OF c0] l2 l0
    by (simp add: tag) (simp add: stub_layout_def)
qed

text \<open>
  C7, as the code has it. For a message laid out with exactly one identity frame
  before the delimiter, \<open>parse\<close> computes the tag over the header, parentHeader,
  metadata and content frames, in this order, compares it with the signature frame
  as \<open>toString()\<close> gives it, and on a match assigns every field from its frame:
  \<open>idents\<close> from the identity, \<open>delimiter\<close> from the delimiter, \<open>metadata\<close> and
  \<open>blob\<close> (if any) from theirs, each as \<open>toString()\<close> gives it, and the header,
  parentHeader and content as \<open>JSON.parse\<close> decodes the \<open>toString()\<close> of theirs.
\<close>

theorem parse_single_identity:
  assumes "spec_layout sentinel frames = Some l"
    and "l_identities l = [ident]"
    and "createHmac rt (scheme this) (key this) = Some mac"
  shows "parse rt this frames =
     (if Buffer_toString rt (l_signature l) = layout_tag mac l then
        bind_err (toJSON rt (Some (l_header l))) (\<lambda>hv.
        bind_err (toJSON rt (Some (l_parentHeader l))) (\<lambda>pv.
        bind_err (toJSON rt (Some (l_content l))) (\<lambda>cv.
          Inr (this\<lparr>signature := Some (Buffer_toString rt (l_signature l)),
                    signatureOK := Some True,
                    idents := Some (Buffer_toString rt ident),
                    delimiter := Some (Buffer_toString rt sentinel),
                    header := hv, parentHeader := pv,
                    metadata := Some (Buffer_toString rt (l_metadata l)),
                    content := cv, blob := toString rt (l_blob l)\<rparr>))))
      else Inr (this\<lparr>signature := Some (Buffer_toString rt (l_signature l)),
                     signatureOK := Some False\<rparr>))"
proof -
  let ?rest = "case l_blob l of None \<Rightarrow> [] | Some b \<Rightarrow> [b]"
  let ?sig = "Buffer_toString rt (l_signature l)"
  from spec_layout_one_identity [OF assms(1,2)]
  have fs: "frames = ident # sentinel # l_signature l # l_header l # l_parentHeader l
            # l_metadata l # l_content l # ?rest" .
  have len: "7 \<le> length frames" by (subst fs) simp
  have c: "check_signature rt this frames = Inr (?sig, ?sig = layout_tag mac l)"
    unfolding check_signature_frames [OF assms(3) len]
    by (subst (1 2 3 4 5 6) fs) (simp add: layout_tag_def)
  have a7: "arg frames 7 = l_blob l"
    by (subst fs) (simp add: arg_def split: option.splits)
  have args: "arg frames 0 = Some ident" "arg frames (Suc 0) = Some sentinel"
    "arg frames 3 = Some (l_header l)" "arg frames 4 = Some (l_parentHeader l)"
    "arg frames 5 = Some (l_metadata l)" "arg frames 6 = Some (l_content l)"
    by (subst fs, simp add: arg_def)+
  show ?thesis
  proof (cases "?sig = layout_tag mac l")
    case True
    with c have "check_signature rt this frames = Inr (?sig, True)" by simp
    from parse_authenticated [OF this] True show ?thesis
      by (simp add: decode_def args a7 toString_def bind_err_def
          split: sum.splits option.splits)
  next
    case False
    with c have "check_signature rt this frames = Inr (?sig, False)" by simp
    from parse_unauthenticated [OF this] False show ?thesis by simp
  qed
qed

text \<open>
  The witness is the request of the test double behind one identity that is not
  UTF-8, the bytes \<open>00 80 00 41 a7\<close>: \<open>idents\<close> is the decoded string.
\<close>

theorem parse_single_identity_witness:
  "spec_layout ''<IDS|MSG>'' stub_router_frames
     = Some (stub_layout\<lparr>l_identities := [[CHR 0x00, CHR 0x80, CHR 0x00, CHR 0x41, CHR 0xA7]]\<rparr>)
   \<and> createHmac stub_runtime ''sha256'' ''secret'' = Some (\<lambda>data. ''secret'' @ data)
   \<and> Buffer_toString stub_runtime [CHR 0x00, CHR 0x80, CHR 0x00, CHR 0x41, CHR 0xA7]
       = [CHR 0x00, CHR 0xEF, CHR 0xBF, CHR 0xBD, CHR 0x00, CHR 0x41, CHR 0xEF, CHR 0xBF, CHR 0xBD]
   \<and> parse stub_runtime (Message_fields (Some ''sha256'') (Some ''secret'')) stub_router_frames
       = Inr ((stub_request ''execute_request'')
                \<lparr>idents := Some [CHR 0x00, CHR 0xEF, CHR 0xBF, CHR 0xBD, CHR 0x00, CHR 0x41,
                                 CHR 0xEF, CHR 0xBF, CHR 0xBD]\<rparr>)"
proof -
  let ?t = "Message_fields (Some ''sha256'') (Some ''secret'')"
  let ?id = "[CHR 0x00, CHR 0x80, CHR 0x00, CHR 0x41, CHR 0xA7]"
  let ?l = "stub_layout\<lparr>l_identities := [?id]\<rparr>"
  have l: "spec_layout ''<IDS|MSG>'' stub_router_frames = Some ?l"
    by (simp add: spec_layout_def stub_router_frames_def stub_layout_def)
  have i: "l_identities ?l = [?id]" by simp
  have k: "createHmac stub_runtime (scheme ?t) (key ?t) = Some (\<lambda>data. ''secret'' @ data)"
    by (simp add: stub_mac_sha256 Message_fields_def or_default_def)
  have f: "l_signature ?l = stub_signature" "l_header ?l = stub_header_text ''execute_request''"
    "l_parentHeader ?l = ''{}''" "l_metadata ?l = ''{}''"
    "l_content ?l = stub_content_text" "l_blob ?l = None"
    by (simp_all add: stub_layout_def)
  have tag: "layout_tag (\<lambda>data. ''secret'' @ data) ?l = stub_signature"
    using stub_layout_tag by (simp add: layout_tag_def)
  have sig: "Buffer_toString stub_runtime stub_signature = stub_signature"
    unfolding stub_signature_def by (rule toString_ascii [OF is_ascii_hex])
  have id: "Buffer_toString stub_runtime ?id
       = [CHR 0x00, CHR 0xEF, CHR 0xBF, CHR 0xBD, CHR 0x00, CHR 0x41, CHR 0xEF, CHR 0xBF, CHR 0xBD]"
    by (simp add: Buffer_toString_def is_ascii_def stub_runtime_def stub_utf8_decode_def)
  have "parse stub_runtime ?t stub_router_frames
       = Inr ((stub_request ''execute_request'')
                \<lparr>idents := Some [CHR 0x00, CHR 0xEF, CHR 0xBF, CHR 0xBD, CHR 0x00, CHR 0x41,
                                 CHR 0xEF, CHR 0xBF, CHR 0xBD]\<rparr>)"
    unfolding parse_single_identity [OF l i k] tag f sig id
      stub_toString_header [of "''execute_request''", simplified] stub_toString_texts
    by (simp add: toJSON_def toString_def bind_err_def stub_parse_header
        stub_toString_header stub_toString_texts
        stub_parse_empty stub_parse_content stub_request_def Message_fields_def or_default_def
        stub_signature_def)
  with l id show ?thesis by (simp add: stub_mac_sha256)
qed

text \<open>
  C4. The frames that \<open>respond\<close> sends, parsed again by a message with the same
  scheme and key, are authenticated: for every originating message that came from
  the wire (its \<open>idents\<close> and \<open>delimiter\<close> are set), every message type, content,
  scheme and key for which \<open>respond\<close> returns, provided \<open>JSON.parse\<close> accepts
  the texts of \<open>JSON.stringify\<close> as \<open>parse\<close> hands them over, after
  \<open>toString()\<close>.
\<close>

theorem respond_then_parse_authenticated:
  assumes r: "respond rt this socket messageType content_arg st = (None, st')"
    and i: "idents this = Some i" and d: "delimiter this = Some d"
    and j: "\<forall>v. JSON_parse rt (Buffer_toString rt (JSON_text rt v)) \<noteq> None"
    and sk: "scheme this' = scheme this" "key this' = key this"
  shows "\<exists>frames m. sent st' = sent st @ [(socket, map Some frames)]
           \<and> parse rt this' frames = Inr m \<and> signatureOK m = Some True"
proof -
  from respond_None [OF r] obtain username session mac where
    u: "get_prop (header this) ''username'' = Inr username"
    and s: "get_prop (header this) ''session'' = Inr session"
    and k: "createHmac rt (scheme this) (key this) = Some mac"
    and c: "content_arg \<noteq> JUndefined" by blast
  let ?H = "response_header rt (uuid_calls st) username session messageType"
  let ?h = "JSON_text rt ?H" and ?p = "JSON_text rt (header this)"
  let ?m = "JSON_text rt (JObj [])" and ?c = "JSON_text rt content_arg"
  let ?sig = "digest_hex mac (?h @ ?p @ ?m @ ?c)"
  let ?fs = "[i, d, ?sig, ?h, ?p, ?m, ?c]"
  from respond_ok [OF u s k c, of socket messageType st] r
  have st': "st' = st\<lparr>uuid_calls := Suc (uuid_calls st),
                sent := sent st @ [(socket, wire rt mac this ?H content_arg)]\<rparr>" by simp
  have w: "wire rt mac this ?H content_arg = map Some ?fs"
    by (simp add: wire_def i d)
  have k': "createHmac rt (scheme this') (key this') = Some mac" using k sk by simp
  have chk: "check_signature rt this' ?fs = Inr (?sig, True)"
    using check_signature_frames [OF k', of ?fs] by (simp add: toString_digest)
  from j obtain hv where hv: "JSON_parse rt (Buffer_toString rt ?h) = Some hv"
    by (metis option.exhaust)
  from j obtain pv where pv: "JSON_parse rt (Buffer_toString rt ?p) = Some pv"
    by (metis option.exhaust)
  from j obtain cv where cv: "JSON_parse rt (Buffer_toString rt ?c) = Some cv"
    by (metis option.exhaust)
  have "parse rt this' ?fs = Inr (this'\<lparr>signature := Some ?sig, signatureOK := Some True,
      idents := Some (Buffer_toString rt i), delimiter := Some (Buffer_toString rt d),
      header := hv, parentHeader := pv,
      metadata := Some (Buffer_toString rt ?m), content := cv, blob := None\<rparr>)"
    using chk
    by (simp add: parse_def bind_err_def decode_def toJSON_def toString_def arg_def
        hv pv cv)
  then have "parse rt this' ?fs = Inr (this'\<lparr>signature := Some ?sig, signatureOK := Some True,
      idents := Some (Buffer_toString rt i), delimiter := Some (Buffer_toString rt d),
      header := hv, parentHeader := pv,
      metadata := Some (Buffer_toString rt ?m), content := cv, blob := None\<rparr>)
    \<and> signatureOK (this'\<lparr>signature := Some ?sig, signatureOK := Some True,
      idents := Some (Buffer_toString rt i), delimiter := Some (Buffer_toString rt d),
      header := hv, parentHeader := pv,
      metadata := Some (Buffer_toString rt ?m), content := cv, blob := None\<rparr>) = Some True" by simp
  moreover have "sent st' = sent st @ [(socket, map Some ?fs)]"
    unfolding st' w by simp
  ultimately show ?thesis by blast
qed

theorem respond_then_parse_authenticated_witness:
  "fst (respond stub_runtime (stub_request ''execute_request'') ShellSocket
          ''kernel_info_reply'' (JObj []) initial_state) = None
   \<and> idents (stub_request ''execute_request'') = Some ''client''
   \<and> delimiter (stub_request ''execute_request'') = Some ''<IDS|MSG>''
   \<and> (\<exists>frames m.
        sent (snd (respond stub_runtime (stub_request ''execute_request'') ShellSocket
                     ''kernel_info_reply'' (JObj []) initial_state))
          = sent initial_state @ [(ShellSocket, map Some frames)]
        \<and> parse stub_runtime (Message_fields (Some ''sha256'') (Some ''secret'')) frames = Inr m
        \<and> signatureOK m = Some True)"
proof -
  let ?r = "respond stub_runtime (stub_request ''execute_request'') ShellSocket
              ''kernel_info_reply'' (JObj []) initial_state"
  have r: "?r = (None, snd ?r)" by (simp add: stub_respond_ok)
  have i: "idents (stub_request ''execute_request'') = Some ''client''"
    and d: "delimiter (stub_request ''execute_request'') = Some ''<IDS|MSG>''"
    by (simp_all add: stub_request_def)
  have j: "\<forall>v. JSON_parse stub_runtime (Buffer_toString stub_runtime (JSON_text stub_runtime v))
             \<noteq> None"
    using stub_json_total by blast
  have sk: "scheme (Message_fields (Some ''sha256'') (Some ''secret''))
        = scheme (stub_request ''execute_request'')"
    "key (Message_fields (Some ''sha256'') (Some ''secret''))
        = key (stub_request ''execute_request'')"
    by (simp_all add: Message_fields_def or_default_def stub_request_def)
  from respond_then_parse_authenticated [OF r i d j sk] r i d show ?thesis
    by (simp add: stub_respond_ok)
qed

text \<open>
  C8. An \<open>execute_request\<close> with \<open>content.code = "1+1"\<close>, run by a session
  manager that calls \<open>beforeRun\<close> and then \<open>onSuccess\<close> (and \<open>afterRun\<close> wherever
  it likes) with execution count 1 and \<open>result.mime = {"text/plain": "2"}\<close>,
  makes the kernel send exactly three messages, in this order: \<open>pyin\<close> on IOPub with
  the execution count and the code, \<open>execute_reply\<close> on Shell with status \<open>ok\<close>,
  the execution count and the three empty placeholders, and \<open>pyout\<close> on IOPub
  with the execution count and the MIME mapping as data.
\<close>

theorem execute_request_success:
  assumes u: "get_prop (header request) ''username'' = Inr username"
    and s: "get_prop (header request) ''session'' = Inr session_id"
    and k: "createHmac rt (scheme request) (key request) = Some mac"
    and code: "get_prop (content request) ''code'' = Inr (JStr ''1+1'')"
    and engine: "filter emits (sm_run rt session_id (JStr ''1+1''))
                   = [BeforeRun session, OnSuccess session]"
    and count: "get_prop session ''executionCount'' = Inr (JNum 1)"
    and result: "get_prop session ''result'' = Inr result"
    and mime: "get_prop result ''mime'' = Inr (JObj [(''text/plain'', JStr ''2'')])"
  shows "execute_request rt request st =
     (None, st\<lparr>uuid_calls := uuid_calls st + 3,
        sent := sent st @
          [(IopubSocket,
            wire rt mac request
              (response_header rt (uuid_calls st) username session_id ''pyin'')
              (JObj [(''execution_count'', JNum 1), (''code'', JStr ''1+1'')])),
           (ShellSocket,
            wire rt mac request
              (response_header rt (uuid_calls st + 1) username session_id ''execute_reply'')
              (JObj [(''status'', JStr ''ok''), (''execution_count'', JNum 1),
                     (''payload'', JArr []), (''user_variables'', JObj []),
                     (''user_expressions'', JObj [])])),
           (IopubSocket,
            wire rt mac request
              (response_header rt (uuid_calls st + 2) username session_id ''pyout'')
              (JObj [(''execution_count'', JNum 1),
                     (''data'', JObj [(''text/plain'', JStr ''2'')]),
                     (''metadata'', JObj [])]))]\<rparr>)"
proof -
  note r = respond_ok_obj [OF u s k]
  have b: "beforeRun rt request session st = (None, st\<lparr>uuid_calls := Suc (uuid_calls st),
        sent := sent st @ [(IopubSocket, wire rt mac request
              (response_header rt (uuid_calls st) username session_id ''pyin'')
              (JObj [(''execution_count'', JNum 1), (''code'', JStr ''1+1'')]))]\<rparr>)" for st
    by (simp add: beforeRun_def eval_then_def count code r)
  have o: "onSuccess rt request session st = (None, st\<lparr>uuid_calls := Suc (Suc (uuid_calls st)),
        sent := sent st @ [(ShellSocket, wire rt mac request
              (response_header rt (uuid_calls st) username session_id ''execute_reply'')
              (JObj [(''status'', JStr ''ok''), (''execution_count'', JNum 1),
                     (''payload'', JArr []), (''user_variables'', JObj []),
                     (''user_expressions'', JObj [])])),
           (IopubSocket, wire rt mac request
              (response_header rt (Suc (uuid_calls st)) username session_id ''pyout'')
              (JObj [(''execution_count'', JNum 1),
                     (''data'', JObj [(''text/plain'', JStr ''2'')]),
                     (''metadata'', JObj [])]))]\<rparr>)" for st
    by (simp add: onSuccess_def seq_def eval_then_def count result mime r)
  have "execute_request rt request st
      = run_callbacks rt request [BeforeRun session, OnSuccess session] st"
    by (simp add: execute_request_def eval_then_def code s
        run_callbacks_emits [of rt request "sm_run rt session_id (JStr ''1+1'')"] engine)
  also have "\<dots> = (None, st\<lparr>uuid_calls := uuid_calls st + 3,
        sent := sent st @
          [(IopubSocket,
            wire rt mac request
              (response_header rt (uuid_calls st) username session_id ''pyin'')
              (JObj [(''execution_count'', JNum 1), (''code'', JStr ''1+1'')])),
           (ShellSocket,
            wire rt mac request
              (response_header rt (uuid_calls st + 1) username session_id ''execute_reply'')
              (JObj [(''status'', JStr ''ok''), (''execution_count'', JNum 1),
                     (''payload'', JArr []), (''user_variables'', JObj []),
                     (''user_expressions'', JObj [])])),
           (IopubSocket,
            wire rt mac request
              (response_header rt (uuid_calls st + 2) username session_id ''pyout'')
              (JObj [(''execution_count'', JNum 1),
                     (''data'', JObj [(''text/plain'', JStr ''2'')]),
                     (''metadata'', JObj [])]))]\<rparr>)"
    by (simp add: seq_def b o numeral_3_eq_3)
  finally show ?thesis .
qed

theorem execute_request_success_witness:
  "filter emits (sm_run stub_runtime (JStr ''session-1'') (JStr ''1+1''))
     = [BeforeRun stub_success_session, OnSuccess stub_success_session]
   \<and> get_prop (content (stub_request ''execute_request'')) ''code'' = Inr (JStr ''1+1'')
   \<and> get_prop stub_success_session ''executionCount'' = Inr (JNum 1)
   \<and> fst (execute_request stub_runtime (stub_request ''execute_request'') initial_state) = None
   \<and> map fst (sent (snd (execute_request stub_runtime (stub_request ''execute_request'')
                            initial_state)))
       = [IopubSocket, ShellSocket, IopubSocket]"
proof -
  have engine: "filter emits (sm_run stub_runtime (JStr ''session-1'') (JStr ''1+1''))
     = [BeforeRun stub_success_session, OnSuccess stub_success_session]"
    by (simp add: stub_runtime_def)
  have count: "get_prop stub_success_session ''executionCount'' = Inr (JNum 1)"
    and result: "get_prop stub_success_session ''result''
        = Inr (JObj [(''mime'', JObj [(''text/plain'', JStr ''2'')])])"
    by (simp_all add: stub_success_session_def)
  have mime: "get_prop (JObj [(''mime'', JObj [(''text/plain'', JStr ''2'')])]) ''mime''
        = Inr (JObj [(''text/plain'', JStr ''2'')])"
    by simp
  note p = stub_request_props [of "''execute_request''"]
  from execute_request_success [OF p engine count result mime, where st = initial_state]
    engine count p(4)
  show ?thesis by (simp add: initial_state_def)
qed

text \<open>
  C9. When the task's \<open>onError\<close> callback is called with a session whose
  \<open>result.error\<close> has \<open>ename\<close>, \<open>evalue\<close> and \<open>traceback\<close>, the kernel sends
  an \<open>execute_reply\<close> on Shell with status \<open>error\<close>, the execution count and
  the three fields, and then \<open>pyerr\<close> on IOPub with the execution count and the same
  three fields.
\<close>

theorem onError_reply_and_broadcast:
  assumes u: "get_prop (header request) ''username'' = Inr username"
    and s: "get_prop (header request) ''session'' = Inr session_id"
    and k: "createHmac rt (scheme request) (key request) = Some mac"
    and count: "get_prop session ''executionCount'' = Inr count"
    and result: "get_prop session ''result'' = Inr result"
    and err: "get_prop result ''error'' = Inr err"
    and ename: "get_prop err ''ename'' = Inr ename"
    and evalue: "get_prop err ''evalue'' = Inr evalue"
    and traceback: "get_prop err ''traceback'' = Inr traceback"
  shows "run_callback rt request (OnError session) st =
     (None, st\<lparr>uuid_calls := uuid_calls st + 2,
        sent := sent st @
          [(ShellSocket,
            wire rt mac request
              (response_header rt (uuid_calls st) username session_id ''execute_reply'')
              (JObj [(''status'', JStr ''error''), (''execution_count'', count),
                     (''ename'', ename), (''evalue'', evalue), (''traceback'', traceback)])),
           (IopubSocket,
            wire rt mac request
              (response_header rt (uuid_calls st + 1) username session_id ''pyerr'')
              (JObj [(''execution_count'', count), (''ename'', ename),
                     (''evalue'', evalue), (''traceback'', traceback)]))]\<rparr>)"
proof -
  note r = respond_ok_obj [OF u s k]
  have e: "error_fields session = Inr (ename, evalue, traceback)"
    by (simp add: error_fields_def bind_err_def result err ename evalue traceback)
  show ?thesis
    by (simp add: onError_def seq_def eval_then_def count e r)
qed


theorem onError_reply_and_broadcast_witness:
  "get_prop stub_error_session ''executionCount'' = Inr (JNum 1)
   \<and> error_fields stub_error_session = Inr (JStr ''Error'', JStr ''boom'', JArr [JStr ''boom''])
   \<and> run_callback stub_runtime (stub_request ''execute_request'') (OnError stub_error_session)
        initial_state
      = (None, initial_state\<lparr>uuid_calls := 2,
          sent :=
          [(ShellSocket,
            wire stub_runtime (\<lambda>data. ''secret'' @ data) (stub_request ''execute_request'')
              (response_header stub_runtime 0 (JStr ''user'') (JStr ''session-1'') ''execute_reply'')
              (JObj [(''status'', JStr ''error''), (''execution_count'', JNum 1),
                     (''ename'', JStr ''Error''), (''evalue'', JStr ''boom''),
                     (''traceback'', JArr [JStr ''boom''])])),
           (IopubSocket,
            wire stub_runtime (\<lambda>data. ''secret'' @ data) (stub_request ''execute_request'')
              (response_header stub_runtime 1 (JStr ''user'') (JStr ''session-1'') ''pyerr'')
              (JObj [(''execution_count'', JNum 1), (''ename'', JStr ''Error''),
                     (''evalue'', JStr ''boom''), (''traceback'', JArr [JStr ''boom''])]))]\<rparr>)"
proof -
  let ?err = "JObj [(''ename'', JStr ''Error''), (''evalue'', JStr ''boom''),
                    (''traceback'', JArr [JStr ''boom''])]"
  have count: "get_prop stub_error_session ''executionCount'' = Inr (JNum 1)"
    and result: "get_prop stub_error_session ''result'' = Inr (JObj [(''error'', ?err)])"
    by (simp_all add: stub_error_session_def)
  have err: "get_prop (JObj [(''error'', ?err)]) ''error'' = Inr ?err"
    and f: "get_prop ?err ''ename'' = Inr (JStr ''Error'')"
      "get_prop ?err ''evalue'' = Inr (JStr ''boom'')"
      "get_prop ?err ''traceback'' = Inr (JArr [JStr ''boom''])"
    by simp_all
  have e: "error_fields stub_error_session
      = Inr (JStr ''Error'', JStr ''boom'', JArr [JStr ''boom''])"
    by (simp add: error_fields_def bind_err_def stub_error_session_def)
  note p = stub_request_props [of "''execute_request''"]
  from onError_reply_and_broadcast [OF p(1-3) count result err f, where st = initial_state]
    count e
  show ?thesis by (simp add: initial_state_def)
qed

end
